theory Spec2Isabelle
  imports Complex_Main
begin

section \<open>Loss functions of ampligraph/latent\_features/loss\_functions.py\<close>

text \<open>
  The module defines a registry of loss classes, an abstract class \<open>Loss\<close> with the
  template method \<open>apply\<close>, and six registered subclasses. Scores are float32 tensors of
  the tensor runtime; here a rank-1 tensor is a list of reals and a rank-2 tensor a shape
  with a row-major buffer. Arithmetic is the exact arithmetic of the reals: rounding,
  overflow and NaN of float32 are not part of the model. A leading underscore of a Python
  name is written \<open>u_\<close>.
\<close>

subsection \<open>Python values, exceptions, dictionaries\<close>

datatype pyval = PyNone | PyBool bool | PyInt int | PyFloat real

datatype error =
    KeyError string
  | TypeError
  | ZeroDivisionError
  | ValueError
  | InvalidArgumentError
  | ShapeMismatchError nat nat
  | MissingHyperparameterError string
  | UnknownParameterError string
  | MissingDependencyConfigurationError

text \<open>
  \<open>InvalidArgumentError\<close> is what the tensor runtime raises for a reshape to a shape of
  another size and for an elementwise operation on shapes that do not broadcast;
  \<open>ShapeMismatchError a b\<close> is a failed \<open>tf.Assert(tf.equal(a, b), [a, b])\<close>. The three
  \<open>raise Exception(msg)\<close> of the module are \<open>MissingHyperparameterError\<close> (in
  \<open>Loss.__init__\<close>), \<open>UnknownParameterError\<close> (in \<open>get_state\<close>) and
  \<open>MissingDependencyConfigurationError\<close> (in \<open>BCELoss._inputs_check\<close>).
\<close>

definition bind_err :: "error + 'a \<Rightarrow> ('a \<Rightarrow> error + 'b) \<Rightarrow> error + 'b" where
  "bind_err r f = (case r of Inl e \<Rightarrow> Inl e | Inr v \<Rightarrow> f v)"

text \<open>\<open>d[k]\<close> raises KeyError on a missing key; \<open>d.get(k, default)\<close> does not.\<close>

definition getitem :: "(string \<rightharpoonup> 'v) \<Rightarrow> string \<Rightarrow> error + 'v" where
  "getitem d k = (case d k of None \<Rightarrow> Inl (KeyError k) | Some v \<Rightarrow> Inr v)"

definition dict_get :: "(string \<rightharpoonup> 'v) \<Rightarrow> string \<Rightarrow> 'v \<Rightarrow> 'v" where
  "dict_get d k dflt = (case d k of None \<Rightarrow> dflt | Some v \<Rightarrow> v)"

text \<open>Python numbers: a bool is an int; None is not a number.\<close>

fun py_num :: "pyval \<Rightarrow> real option" where
  "py_num PyNone = None"
| "py_num (PyBool b) = Some (if b then 1 else 0)"
| "py_num (PyInt i) = Some (of_int i)"
| "py_num (PyFloat r) = Some r"

fun py_int :: "pyval \<Rightarrow> int option" where
  "py_int (PyInt i) = Some i"
| "py_int (PyBool b) = Some (if b then 1 else 0)"
| "py_int PyNone = None"
| "py_int (PyFloat r) = None"

text \<open>Truth value of an object in \<open>if v:\<close>.\<close>

fun py_truthy :: "pyval \<Rightarrow> bool" where
  "py_truthy PyNone = False"
| "py_truthy (PyBool b) = b"
| "py_truthy (PyInt i) = (i \<noteq> 0)"
| "py_truthy (PyFloat r) = (r \<noteq> 0)"

text \<open>\<open>v != 1\<close>: numbers compare by value, None differs from every number.\<close>

definition py_ne_one :: "pyval \<Rightarrow> bool" where
  "py_ne_one v = (py_num v \<noteq> Some 1)"

text \<open>\<open>a - b\<close> and \<open>a / b\<close> on Python numbers (true division).\<close>

definition py_sub :: "pyval \<Rightarrow> pyval \<Rightarrow> error + real" where
  "py_sub a b = (case (py_num a, py_num b) of
      (Some x, Some y) \<Rightarrow> Inr (x - y)
    | _ \<Rightarrow> Inl TypeError)"

definition py_truediv :: "pyval \<Rightarrow> pyval \<Rightarrow> error + real" where
  "py_truediv a b = (case (py_num a, py_num b) of
      (Some x, Some y) \<Rightarrow> (if y = 0 then Inl ZeroDivisionError else Inr (x / y))
    | _ \<Rightarrow> Inl TypeError)"

subsection \<open>Module constants\<close>

definition DEFAULT_MARGIN :: pyval where
  "DEFAULT_MARGIN = PyInt 1"

definition DEFAULT_ALPHA_ADVERSARIAL :: pyval where
  "DEFAULT_ALPHA_ADVERSARIAL = PyFloat 0.5"

definition DEFAULT_MARGIN_ADVERSARIAL :: pyval where
  "DEFAULT_MARGIN_ADVERSARIAL = PyInt 3"

definition DEFAULT_CLIP_EXP_LOWER :: real where
  "DEFAULT_CLIP_EXP_LOWER = - 75"

definition DEFAULT_CLIP_EXP_UPPER :: real where
  "DEFAULT_CLIP_EXP_UPPER = 75"

definition DEFAULT_LABEL_SMOOTHING :: pyval where
  "DEFAULT_LABEL_SMOOTHING = PyNone"

definition DEFAULT_LABEL_WEIGHTING :: pyval where
  "DEFAULT_LABEL_WEIGHTING = PyBool False"

subsection \<open>The registry\<close>

datatype loss_class =
    PairwiseLoss | NLLLoss | AbsoluteMarginLoss | SelfAdversarialLoss | NLLMulticlass | BCELoss

text \<open>
  What \<open>register_loss\<close> attaches to a class handle: its name, its external parameters
  and its class parameters.
\<close>

record class_handle =
  handle :: loss_class
  name :: string
  external_params :: "string list"
  class_params :: "string \<rightharpoonup> bool"

definition default_class_params :: "string \<rightharpoonup> bool" where
  "default_class_params = [''require_same_size_pos_neg'' \<mapsto> True]"

definition register_loss ::
  "string \<Rightarrow> string list option \<Rightarrow> (string \<rightharpoonup> bool) option \<Rightarrow> loss_class
     \<Rightarrow> (string \<rightharpoonup> class_handle) \<Rightarrow> (string \<rightharpoonup> class_handle)" where
  "register_loss nm ext_params cls_params h registry =
     (let ext = (case ext_params of None \<Rightarrow> [] | Some ps \<Rightarrow> ps);
          cp = (case cls_params of None \<Rightarrow> default_class_params | Some c \<Rightarrow> c)
      in registry(nm \<mapsto>
           \<lparr>handle = h, name = nm, external_params = ext,
            class_params = [''require_same_size_pos_neg'' \<mapsto>
              dict_get cp ''require_same_size_pos_neg''
                (the (default_class_params ''require_same_size_pos_neg''))]\<rparr>))"

text \<open>The six decorators of the module, in the order in which the module runs them.\<close>

definition LOSS_REGISTRY :: "string \<rightharpoonup> class_handle" where
  "LOSS_REGISTRY =
     register_loss ''bce'' (Some [''label_smoothing'', ''label_weighting''])
       (Some [''require_same_size_pos_neg'' \<mapsto> False]) BCELoss
    (register_loss ''multiclass_nll'' (Some [])
       (Some [''require_same_size_pos_neg'' \<mapsto> False]) NLLMulticlass
    (register_loss ''self_adversarial'' (Some [''margin'', ''alpha''])
       (Some [''require_same_size_pos_neg'' \<mapsto> False]) SelfAdversarialLoss
    (register_loss ''absolute_margin'' (Some [''margin'']) None AbsoluteMarginLoss
    (register_loss ''nll'' None None NLLLoss
    (register_loss ''pairwise'' (Some [''margin'']) None PairwiseLoss
       Map.empty)))))"

text \<open>\<open>self.name\<close>: the class attribute that the decorator has set.\<close>

fun name_of :: "loss_class \<Rightarrow> string" where
  "name_of PairwiseLoss = ''pairwise''"
| "name_of NLLLoss = ''nll''"
| "name_of AbsoluteMarginLoss = ''absolute_margin''"
| "name_of SelfAdversarialLoss = ''self_adversarial''"
| "name_of NLLMulticlass = ''multiclass_nll''"
| "name_of BCELoss = ''bce''"

subsection \<open>Loss instances and their construction\<close>

text \<open>A pending assertion \<open>tf.Assert(tf.equal(a, b), [a, b])\<close> on two first dimensions.\<close>

datatype assertion = AssertEqual nat nat

record loss =
  cls :: loss_class
  u_loss_parameters :: "string \<rightharpoonup> pyval"
  u_dependencies :: "assertion list"

text \<open>
  \<open>_init_hyperparams\<close> of each subclass, on the parameters stored so far. Every read of
  the dictionary is a \<open>.get\<close> with a default.
\<close>

fun u_init_hyperparams ::
  "loss_class \<Rightarrow> (string \<rightharpoonup> pyval) \<Rightarrow> (string \<rightharpoonup> pyval) \<Rightarrow> error + (string \<rightharpoonup> pyval)" where
  "u_init_hyperparams PairwiseLoss ps hyperparam_dict =
     Inr (ps(''margin'' \<mapsto> dict_get hyperparam_dict ''margin'' DEFAULT_MARGIN))"
| "u_init_hyperparams NLLLoss ps hyperparam_dict = Inr ps"
| "u_init_hyperparams AbsoluteMarginLoss ps hyperparam_dict =
     Inr (ps(''margin'' \<mapsto> dict_get hyperparam_dict ''margin'' DEFAULT_MARGIN))"
| "u_init_hyperparams SelfAdversarialLoss ps hyperparam_dict =
     Inr (ps(''margin'' \<mapsto> dict_get hyperparam_dict ''margin'' DEFAULT_MARGIN_ADVERSARIAL,
             ''alpha'' \<mapsto> dict_get hyperparam_dict ''alpha'' DEFAULT_ALPHA_ADVERSARIAL))"
| "u_init_hyperparams NLLMulticlass ps hyperparam_dict = Inr ps"
| "u_init_hyperparams BCELoss ps hyperparam_dict =
     Inr (ps(''label_smoothing'' \<mapsto>
               dict_get hyperparam_dict ''label_smoothing'' DEFAULT_LABEL_SMOOTHING,
             ''label_weighting'' \<mapsto>
               dict_get hyperparam_dict ''label_weighting'' DEFAULT_LABEL_WEIGHTING))"

text \<open>
  \<open>Loss.__init__\<close>: stores eta, runs the hook, and turns a KeyError of the hook into the
  exception for a missing hyperparameter. The logging under \<open>verbose\<close> has no effect on
  the instance.
\<close>

definition Loss_init :: "loss_class \<Rightarrow> int \<Rightarrow> (string \<rightharpoonup> pyval) \<Rightarrow> error + loss" where
  "Loss_init c eta hyperparam_dict =
     (case u_init_hyperparams c [''eta'' \<mapsto> PyInt eta] hyperparam_dict of
        Inl (KeyError k) \<Rightarrow> Inl (MissingHyperparameterError k)
      | Inl e \<Rightarrow> Inl e
      | Inr ps \<Rightarrow> Inr \<lparr>cls = c, u_loss_parameters = ps, u_dependencies = []\<rparr>)"

text \<open>
  The default of the argument \<open>loss_params\<close> in \<open>__init__\<close> of each subclass; \<open>None\<close>
  below is the omitted argument.
\<close>

fun default_loss_params :: "loss_class \<Rightarrow> (string \<rightharpoonup> pyval)" where
  "default_loss_params PairwiseLoss = [''margin'' \<mapsto> DEFAULT_MARGIN]"
| "default_loss_params NLLLoss = Map.empty"
| "default_loss_params AbsoluteMarginLoss = [''margin'' \<mapsto> DEFAULT_MARGIN]"
| "default_loss_params SelfAdversarialLoss =
     [''margin'' \<mapsto> DEFAULT_MARGIN_ADVERSARIAL, ''alpha'' \<mapsto> DEFAULT_ALPHA_ADVERSARIAL]"
| "default_loss_params NLLMulticlass = Map.empty"
| "default_loss_params BCELoss = Map.empty"

definition new_loss :: "loss_class \<Rightarrow> int \<Rightarrow> (string \<rightharpoonup> pyval) option \<Rightarrow> error + loss" where
  "new_loss c eta loss_params =
     Loss_init c eta (case loss_params of None \<Rightarrow> default_loss_params c | Some hp \<Rightarrow> hp)"

text \<open>
  \<open>get_state\<close>: the subscript on the registry can raise KeyError, which is re-raised as
  an exception; the read of \<open>class_params\<close> is a \<open>.get\<close>, whose result for a missing key
  is Python's None (here \<open>None\<close>).
\<close>

definition get_state :: "loss \<Rightarrow> string \<Rightarrow> error + bool option" where
  "get_state self param_name =
     (case getitem LOSS_REGISTRY (name_of (cls self)) of
        Inl (KeyError k) \<Rightarrow> Inl (UnknownParameterError k)
      | Inl e \<Rightarrow> Inl e
      | Inr h \<Rightarrow> Inr (class_params h param_name))"

text \<open>\<open>BCELoss._set_hyperparams\<close>: overriding a key is logged and done.\<close>

definition u_set_hyperparams :: "loss \<Rightarrow> string \<Rightarrow> pyval \<Rightarrow> loss" where
  "u_set_hyperparams self key v = self\<lparr>u_loss_parameters := (u_loss_parameters self)(key \<mapsto> v)\<rparr>"

subsection \<open>Tensor operations\<close>

text \<open>
  \<open>tf.constant(v, dtype=tf.float32)\<close> of a Python value: a number becomes the scalar,
  None is refused.
\<close>

definition tf_constant_float32 :: "pyval \<Rightarrow> error + real" where
  "tf_constant_float32 v = (case py_num v of None \<Rightarrow> Inl ValueError | Some r \<Rightarrow> Inr r)"

text \<open>
  An elementwise binary operation on two rank-1 tensors broadcasts: equal lengths pair
  up, a tensor of length 1 is repeated, any other pair of lengths is refused.
\<close>

definition tf_broadcast_op ::
  "(real \<Rightarrow> real \<Rightarrow> real) \<Rightarrow> real list \<Rightarrow> real list \<Rightarrow> error + real list" where
  "tf_broadcast_op f a b =
     (if length a = length b then Inr (map2 f a b)
      else if length a = 1 then Inr (map (f (hd a)) b)
      else if length b = 1 then Inr (map (\<lambda>x. f x (hd b)) a)
      else Inl InvalidArgumentError)"

definition tf_reduce_sum :: "real list \<Rightarrow> real" where
  "tf_reduce_sum t = sum_list t"

text \<open>
  The mean of an empty tensor is NaN in the runtime and \<open>0\<close> here (HOL's division by
  zero); no statement below rests on it.
\<close>

definition tf_reduce_mean :: "real list \<Rightarrow> real" where
  "tf_reduce_mean t = sum_list t / real (length t)"

definition tf_log_sigmoid :: "real \<Rightarrow> real" where
  "tf_log_sigmoid x = - ln (1 + exp (- x))"

definition tf_sigmoid :: "real \<Rightarrow> real" where
  "tf_sigmoid x = 1 / (1 + exp (- x))"

text \<open>\<open>tf.clip_by_value\<close> takes the minimum with the upper bound, then the maximum with the lower.\<close>

definition clip_before_exp :: "real list \<Rightarrow> real list" where
  "clip_before_exp v =
     map (\<lambda>x. max (min x DEFAULT_CLIP_EXP_UPPER) DEFAULT_CLIP_EXP_LOWER) v"

text \<open>A rank-2 tensor: its shape and its elements in row-major order.\<close>

record tensor2 =
  dim0 :: nat
  dim1 :: nat
  buf :: "real list"

text \<open>
  \<open>tf.reshape(t, [d0, d1])\<close> where \<open>d0\<close> is a Python value and \<open>d1\<close> a dimension read
  from a tensor: the sizes must agree; \<open>-1\<close> asks the runtime to infer the dimension;
  a value that is not an integer is refused.
\<close>

definition tf_reshape :: "real list \<Rightarrow> pyval \<Rightarrow> nat \<Rightarrow> error + tensor2" where
  "tf_reshape t d0 d1 =
     (case py_int d0 of
        None \<Rightarrow> Inl TypeError
      | Some r \<Rightarrow>
          if r = - 1 then
            (if d1 \<noteq> 0 \<and> length t mod d1 = 0
             then Inr \<lparr>dim0 = length t div d1, dim1 = d1, buf = t\<rparr>
             else Inl InvalidArgumentError)
          else if r < 0 then Inl InvalidArgumentError
          else if nat r * d1 = length t then Inr \<lparr>dim0 = nat r, dim1 = d1, buf = t\<rparr>
          else Inl InvalidArgumentError)"

definition tf2_map :: "(real \<Rightarrow> real) \<Rightarrow> tensor2 \<Rightarrow> tensor2" where
  "tf2_map f t = t\<lparr>buf := map f (buf t)\<rparr>"

text \<open>\<open>tf.reduce_sum(t, axis=0)\<close>: one sum per column, over the rows.\<close>

definition tf_reduce_sum_axis0 :: "tensor2 \<Rightarrow> real list" where
  "tf_reduce_sum_axis0 t =
     map (\<lambda>j. sum_list (map (\<lambda>i. buf t ! (i * dim1 t + j)) [0..<dim0 t])) [0..<dim1 t]"

text \<open>\<open>tf.nn.softmax(t, axis=0)\<close>: each element's exponential over the sum of its column's.\<close>

definition tf_softmax_axis0 :: "tensor2 \<Rightarrow> tensor2" where
  "tf_softmax_axis0 t =
     (let e = tf2_map exp t; s = tf_reduce_sum_axis0 e
      in e\<lparr>buf := map (\<lambda>k. buf e ! k / s ! (k mod dim1 t)) [0..<length (buf e)]\<rparr>)"

text \<open>
  \<open>tf.multiply\<close> on two rank-2 tensors of one shape, the only case the module has
  (both operands come from \<open>scores_neg_reshaped\<close>).
\<close>

definition tf2_multiply :: "tensor2 \<Rightarrow> tensor2 \<Rightarrow> error + tensor2" where
  "tf2_multiply p q =
     (if dim0 p = dim0 q \<and> dim1 p = dim1 q
      then Inr (p\<lparr>buf := map2 (*) (buf p) (buf q)\<rparr>)
      else Inl InvalidArgumentError)"

text \<open>
  \<open>tf.nn.sigmoid_cross_entropy_with_logits\<close>: refuses labels and logits of different
  shapes; elementwise \<open>max(x, 0) - x * z + log(1 + exp(-abs(x)))\<close>.
\<close>

definition sigmoid_cross_entropy_with_logits :: "real list \<Rightarrow> real list \<Rightarrow> error + real list" where
  "sigmoid_cross_entropy_with_logits labels logits =
     (if length labels \<noteq> length logits then Inl ValueError
      else Inr (map2 (\<lambda>z x. max x 0 - x * z + ln (1 + exp (- \<bar>x\<bar>))) labels logits))"

subsection \<open>The reductions \<open>_apply\<close>\<close>

definition PairwiseLoss_u_apply :: "loss \<Rightarrow> real list \<Rightarrow> real list \<Rightarrow> error + real" where
  "PairwiseLoss_u_apply self scores_pos scores_neg =
     bind_err (getitem (u_loss_parameters self) ''margin'') (\<lambda>mv.
     bind_err (tf_constant_float32 mv) (\<lambda>margin.
     bind_err (tf_broadcast_op (+) (map (\<lambda>p. margin - p) scores_pos) scores_neg) (\<lambda>t.
       Inr (tf_reduce_sum (map (\<lambda>x. max x 0) t)))))"

definition NLLLoss_u_apply :: "loss \<Rightarrow> real list \<Rightarrow> real list \<Rightarrow> error + real" where
  "NLLLoss_u_apply self scores_pos0 scores_neg0 =
     (let scores_neg = clip_before_exp scores_neg0;
          scores_pos = clip_before_exp scores_pos0;
          scores = map uminus scores_pos @ scores_neg
      in Inr (tf_reduce_sum (map (\<lambda>s. ln (1 + exp s)) scores)))"

definition AbsoluteMarginLoss_u_apply :: "loss \<Rightarrow> real list \<Rightarrow> real list \<Rightarrow> error + real" where
  "AbsoluteMarginLoss_u_apply self scores_pos scores_neg =
     bind_err (getitem (u_loss_parameters self) ''margin'') (\<lambda>mv.
     bind_err (tf_constant_float32 mv) (\<lambda>margin.
     bind_err (tf_broadcast_op (-) (map (\<lambda>n. max (margin + n) 0) scores_neg) scores_pos) (\<lambda>t.
       Inr (tf_reduce_sum t))))"

definition SelfAdversarialLoss_u_apply :: "loss \<Rightarrow> real list \<Rightarrow> real list \<Rightarrow> error + real" where
  "SelfAdversarialLoss_u_apply self scores_pos scores_neg =
     bind_err (getitem (u_loss_parameters self) ''margin'') (\<lambda>mv.
     bind_err (tf_constant_float32 mv) (\<lambda>margin.
     bind_err (getitem (u_loss_parameters self) ''alpha'') (\<lambda>av.
     bind_err (tf_constant_float32 av) (\<lambda>alpha.
     bind_err (getitem (u_loss_parameters self) ''eta'') (\<lambda>eta.
     bind_err (tf_reshape scores_neg eta (length scores_pos)) (\<lambda>scores_neg_reshaped.
       let p_neg = tf_softmax_axis0 (tf2_map (\<lambda>x. alpha * x) scores_neg_reshaped)
       in bind_err
            (tf2_multiply p_neg
               (tf2_map (\<lambda>x. tf_log_sigmoid (- x - margin)) scores_neg_reshaped)) (\<lambda>w.
          Inr (tf_reduce_sum (map (\<lambda>p. - tf_log_sigmoid (margin - (- p))) scores_pos)
               - tf_reduce_sum (buf w)))))))))"

definition NLLMulticlass_u_apply :: "loss \<Rightarrow> real list \<Rightarrow> real list \<Rightarrow> error + real" where
  "NLLMulticlass_u_apply self scores_pos0 scores_neg0 =
     (let scores_pos = clip_before_exp scores_pos0;
          scores_neg = clip_before_exp scores_neg0
      in bind_err (getitem (u_loss_parameters self) ''eta'') (\<lambda>eta.
         bind_err (tf_reshape scores_neg eta (length scores_pos)) (\<lambda>scores_neg_reshaped.
           let neg_exp = tf2_map exp scores_neg_reshaped;
               pos_exp = map exp scores_pos
           in bind_err (tf_broadcast_op (+) (tf_reduce_sum_axis0 neg_exp) pos_exp) (\<lambda>den.
              bind_err (tf_broadcast_op (/) pos_exp den) (\<lambda>softmax_score.
                Inr (- tf_reduce_sum (map ln softmax_score)))))))"

text \<open>
  \<open>BCELoss._apply\<close>. The smoothing reads \<open>label_smoothing\<close> twice and \<open>num_entities\<close>
  once, in Python arithmetic, before the result meets the tensor.
\<close>

definition BCELoss_smooth :: "loss \<Rightarrow> pyval \<Rightarrow> real list \<Rightarrow> error + real list" where
  "BCELoss_smooth self ls y_true =
     bind_err (py_sub (PyInt 1) ls) (\<lambda>keep.
     bind_err (getitem (u_loss_parameters self) ''num_entities'') (\<lambda>ne.
     bind_err (py_truediv ls ne) (\<lambda>share.
       Inr (map (\<lambda>y. keep * y + share) y_true))))"

definition BCELoss_u_apply :: "loss \<Rightarrow> real list \<Rightarrow> real list \<Rightarrow> error + real" where
  "BCELoss_u_apply self y_true0 y_pred =
     bind_err (getitem (u_loss_parameters self) ''label_smoothing'') (\<lambda>ls.
     bind_err (if ls \<noteq> PyNone then BCELoss_smooth self ls y_true0 else Inr y_true0) (\<lambda>y_true.
     bind_err (getitem (u_loss_parameters self) ''label_weighting'') (\<lambda>lw.
       if py_truthy lw then
         (let eps = 1 / 10 ^ 6;
              wt = tf_reduce_mean y_true
          in bind_err (tf_broadcast_op (*) (map (\<lambda>y. (1 - wt) * y) y_true)
                         (map tf_log_sigmoid y_pred)) (\<lambda>a.
             bind_err (tf_broadcast_op (*) (map (\<lambda>y. wt * (1 - y)) y_true)
                         (map (\<lambda>p. ln (1 - tf_sigmoid p + eps)) y_pred)) (\<lambda>b.
             bind_err (tf_broadcast_op (+) a b) (\<lambda>s.
               Inr (- tf_reduce_sum s)))))
       else
         bind_err (sigmoid_cross_entropy_with_logits y_true y_pred) (\<lambda>t.
           Inr (tf_reduce_sum t)))))"

text \<open>The method \<open>_apply\<close> of an instance is the one of its class.\<close>

definition u_apply :: "loss \<Rightarrow> real list \<Rightarrow> real list \<Rightarrow> error + real" where
  "u_apply self a b =
     (case cls self of
        PairwiseLoss \<Rightarrow> PairwiseLoss_u_apply self a b
      | NLLLoss \<Rightarrow> NLLLoss_u_apply self a b
      | AbsoluteMarginLoss \<Rightarrow> AbsoluteMarginLoss_u_apply self a b
      | SelfAdversarialLoss \<Rightarrow> SelfAdversarialLoss_u_apply self a b
      | NLLMulticlass \<Rightarrow> NLLMulticlass_u_apply self a b
      | BCELoss \<Rightarrow> BCELoss_u_apply self a b)"

subsection \<open>Input checks and \<open>apply\<close>\<close>

text \<open>
  \<open>Loss._inputs_check\<close> empties the list of dependencies, then reads the class flag and,
  only if the flag is true (Python's \<open>and\<close>), eta. The result is the exception raised,
  if any, and the instance as the method leaves it.
\<close>

definition Loss_u_inputs_check :: "loss \<Rightarrow> real list \<Rightarrow> real list \<Rightarrow> error option \<times> loss" where
  "Loss_u_inputs_check self0 scores_pos scores_neg =
     (let self = self0\<lparr>u_dependencies := []\<rparr>
      in case getitem LOSS_REGISTRY (name_of (cls self)) of
           Inl e \<Rightarrow> (Some e, self)
         | Inr h \<Rightarrow>
             (case getitem (class_params h) ''require_same_size_pos_neg'' of
                Inl e \<Rightarrow> (Some e, self)
              | Inr required \<Rightarrow>
                  if required then
                    (case getitem (u_loss_parameters self) ''eta'' of
                       Inl e \<Rightarrow> (Some e, self)
                     | Inr eta \<Rightarrow>
                         if py_ne_one eta then
                           (None, self\<lparr>u_dependencies := u_dependencies self @
                              [AssertEqual (length scores_pos) (length scores_neg)]\<rparr>)
                         else (None, self))
                  else (None, self)))"

text \<open>
  \<open>BCELoss._inputs_check\<close> always appends the assertion on the two lengths, then raises
  if label smoothing is set and \<open>num_entities\<close> is not.
\<close>

definition BCELoss_u_inputs_check :: "loss \<Rightarrow> real list \<Rightarrow> real list \<Rightarrow> error option \<times> loss" where
  "BCELoss_u_inputs_check self0 y_true y_pred =
     (let self = self0\<lparr>u_dependencies := [] @ [AssertEqual (length y_pred) (length y_true)]\<rparr>
      in case getitem (u_loss_parameters self) ''label_smoothing'' of
           Inl e \<Rightarrow> (Some e, self)
         | Inr ls \<Rightarrow>
             if ls \<noteq> PyNone then
               (if ''num_entities'' \<notin> dom (u_loss_parameters self)
                then (Some MissingDependencyConfigurationError, self)
                else (None, self))
             else (None, self))"

definition u_inputs_check :: "loss \<Rightarrow> real list \<Rightarrow> real list \<Rightarrow> error option \<times> loss" where
  "u_inputs_check self a b =
     (case cls self of
        BCELoss \<Rightarrow> BCELoss_u_inputs_check self a b
      | _ \<Rightarrow> Loss_u_inputs_check self a b)"

text \<open>
  The control dependencies: the assertions run before the loss; the first that fails
  raises with its two operands.
\<close>

fun control_dependencies :: "assertion list \<Rightarrow> error option" where
  "control_dependencies [] = None"
| "control_dependencies (AssertEqual a b # rest) =
     (if a = b then control_dependencies rest else Some (ShapeMismatchError a b))"

text \<open>
  \<open>Loss.apply\<close> and \<open>BCELoss.apply\<close> have one body: the input check of the class, the
  dependencies, the reduction of the class. The result is the loss or the exception, and
  the instance as the call leaves it.
\<close>

definition Loss_apply :: "loss \<Rightarrow> real list \<Rightarrow> real list \<Rightarrow> (error + real) \<times> loss" where
  "Loss_apply self0 a b =
     (case u_inputs_check self0 a b of
        (Some e, self) \<Rightarrow> (Inl e, self)
      | (None, self) \<Rightarrow>
          (case control_dependencies (u_dependencies self) of
             Some e \<Rightarrow> (Inl e, self)
           | None \<Rightarrow> (u_apply self a b, self)))"

text \<open>Constructing a loss and calling \<open>apply\<close> on it once.\<close>

definition apply_new ::
  "loss_class \<Rightarrow> int \<Rightarrow> (string \<rightharpoonup> pyval) option \<Rightarrow> real list \<Rightarrow> real list \<Rightarrow> error + real" where
  "apply_new c eta loss_params a b =
     bind_err (new_loss c eta loss_params) (\<lambda>self. fst (Loss_apply self a b))"

subsection \<open>The formulas of the specification\<close>

text \<open>
  The specification's formulas, written from its words with sums over indices, to be
  compared with the reductions above. \<open>spec_grid neg n i j\<close> is the element in row \<open>i\<close>
  and column \<open>j\<close> of \<open>neg\<close> reshaped to rows of \<open>n\<close> columns.
\<close>

definition spec_clip :: "real \<Rightarrow> real" where
  "spec_clip x = (if x < - 75 then - 75 else if 75 < x then 75 else x)"

definition spec_log_sigmoid :: "real \<Rightarrow> real" where
  "spec_log_sigmoid x = ln (1 / (1 + exp (- x)))"

definition spec_pairwise :: "real \<Rightarrow> real list \<Rightarrow> real list \<Rightarrow> real" where
  "spec_pairwise margin pos neg = (\<Sum>i<length pos. max 0 (margin - pos ! i + neg ! i))"

definition spec_absolute_margin :: "real \<Rightarrow> real list \<Rightarrow> real list \<Rightarrow> real" where
  "spec_absolute_margin margin pos neg = (\<Sum>i<length pos. max 0 (margin + neg ! i) - pos ! i)"

definition spec_nll :: "real list \<Rightarrow> real list \<Rightarrow> real" where
  "spec_nll pos neg =
     (\<Sum>x\<leftarrow>map (\<lambda>p. - spec_clip p) pos @ map spec_clip neg. ln (1 + exp x))"

definition spec_grid :: "real list \<Rightarrow> nat \<Rightarrow> nat \<Rightarrow> nat \<Rightarrow> real" where
  "spec_grid neg n i j = neg ! (i * n + j)"

definition spec_p_neg :: "real \<Rightarrow> nat \<Rightarrow> real list \<Rightarrow> nat \<Rightarrow> nat \<Rightarrow> nat \<Rightarrow> real" where
  "spec_p_neg alpha eta neg n i j =
     exp (alpha * spec_grid neg n i j) / (\<Sum>k<eta. exp (alpha * spec_grid neg n k j))"

definition spec_self_adversarial ::
  "real \<Rightarrow> real \<Rightarrow> nat \<Rightarrow> real list \<Rightarrow> real list \<Rightarrow> real" where
  "spec_self_adversarial margin alpha eta pos neg =
     - (\<Sum>j<length pos. spec_log_sigmoid (margin + pos ! j))
     - (\<Sum>i<eta. \<Sum>j<length pos.
          spec_p_neg alpha eta neg (length pos) i j
            * spec_log_sigmoid (- spec_grid neg (length pos) i j - margin))"

definition spec_softmax_score :: "nat \<Rightarrow> real list \<Rightarrow> real list \<Rightarrow> nat \<Rightarrow> real" where
  "spec_softmax_score eta pos neg j =
     exp (spec_clip (pos ! j))
       / ((\<Sum>i<eta. exp (spec_clip (spec_grid neg (length pos) i j))) + exp (spec_clip (pos ! j)))"

definition spec_multiclass_nll :: "nat \<Rightarrow> real list \<Rightarrow> real list \<Rightarrow> real" where
  "spec_multiclass_nll eta pos neg = - (\<Sum>j<length pos. ln (spec_softmax_score eta pos neg j))"

definition spec_smooth :: "real \<Rightarrow> real \<Rightarrow> real list \<Rightarrow> real list" where
  "spec_smooth smoothing num_entities y_true =
     map (\<lambda>y. (1 - smoothing) * y + smoothing / num_entities) y_true"

section \<open>Properties\<close>

subsection \<open>Auxiliary facts\<close>

lemma registry_lookup:
  "LOSS_REGISTRY (name_of c) = Some \<lparr>handle = c, name = name_of c,
     external_params = (case c of PairwiseLoss \<Rightarrow> [''margin''] | NLLLoss \<Rightarrow> []
        | AbsoluteMarginLoss \<Rightarrow> [''margin''] | SelfAdversarialLoss \<Rightarrow> [''margin'', ''alpha'']
        | NLLMulticlass \<Rightarrow> [] | BCELoss \<Rightarrow> [''label_smoothing'', ''label_weighting'']),
     class_params = [''require_same_size_pos_neg'' \<mapsto>
        (c = PairwiseLoss \<or> c = NLLLoss \<or> c = AbsoluteMarginLoss)]\<rparr>"
  by (cases c)
    (simp_all add: LOSS_REGISTRY_def register_loss_def default_class_params_def dict_get_def)

lemma sum_list_map_zip_nth:
  assumes "length xs = length ys"
  shows "sum_list (map g (zip xs ys)) = (\<Sum>i<length xs. g (xs ! i, ys ! i))"
proof -
  have "sum_list (map g (zip xs ys))
      = (\<Sum>i = 0..<length (map g (zip xs ys)). map g (zip xs ys) ! i)"
    by (rule sum_list_sum_nth)
  also have "\<dots> = (\<Sum>i = 0..<length xs. g (xs ! i, ys ! i))"
    using assms by (intro sum.cong) simp_all
  finally show ?thesis by (simp add: atLeast0LessThan)
qed

lemma bind_err_simps [simp]:
  "bind_err (Inl e) f = Inl e" "bind_err (Inr v) f = f v"
  by (simp_all add: bind_err_def)

lemma bind_err_eq_Inl:
  "bind_err r f = Inl e \<longleftrightarrow> r = Inl e \<or> (\<exists>v. r = Inr v \<and> f v = Inl e)"
  by (cases r) simp_all

lemma clip_before_exp_spec: "clip_before_exp v = map spec_clip v"
  by (simp add: clip_before_exp_def spec_clip_def DEFAULT_CLIP_EXP_LOWER_def
      DEFAULT_CLIP_EXP_UPPER_def max_def min_def)

lemma clip_before_exp_bounds: "list_all (\<lambda>x. - 75 \<le> x \<and> x \<le> 75) (clip_before_exp v)"
  by (simp add: clip_before_exp_def list_all_iff DEFAULT_CLIP_EXP_LOWER_def
      DEFAULT_CLIP_EXP_UPPER_def)

lemma tf_broadcast_op_not_assert: "tf_broadcast_op f a b \<noteq> Inl (ShapeMismatchError m n)"
  by (simp add: tf_broadcast_op_def)

lemma getitem_not_assert: "getitem d k \<noteq> Inl (ShapeMismatchError m n)"
  by (simp add: getitem_def split: option.splits)

lemma tf_constant_not_assert: "tf_constant_float32 v \<noteq> Inl (ShapeMismatchError m n)"
  by (simp add: tf_constant_float32_def split: option.splits)

lemma tf_reshape_not_assert: "tf_reshape t d0 d1 \<noteq> Inl (ShapeMismatchError m n)"
  by (simp add: tf_reshape_def split: option.splits)

lemma tf2_multiply_not_assert: "tf2_multiply p q \<noteq> Inl (ShapeMismatchError m n)"
  by (simp add: tf2_multiply_def)

lemmas not_assert = tf_broadcast_op_not_assert getitem_not_assert tf_constant_not_assert
  tf_reshape_not_assert tf2_multiply_not_assert

lemma PairwiseLoss_not_assert:
  "PairwiseLoss_u_apply self a b \<noteq> Inl (ShapeMismatchError m n)"
  by (auto simp: PairwiseLoss_u_apply_def bind_err_eq_Inl not_assert)

lemma AbsoluteMarginLoss_not_assert:
  "AbsoluteMarginLoss_u_apply self a b \<noteq> Inl (ShapeMismatchError m n)"
  by (auto simp: AbsoluteMarginLoss_u_apply_def bind_err_eq_Inl not_assert)

lemma NLLLoss_not_assert:
  "NLLLoss_u_apply self a b \<noteq> Inl (ShapeMismatchError m n)"
  by (simp add: NLLLoss_u_apply_def Let_def)

lemma SelfAdversarialLoss_not_assert:
  "SelfAdversarialLoss_u_apply self a b \<noteq> Inl (ShapeMismatchError m n)"
  by (auto simp: SelfAdversarialLoss_u_apply_def bind_err_eq_Inl not_assert Let_def)

lemma NLLMulticlass_not_assert:
  "NLLMulticlass_u_apply self a b \<noteq> Inl (ShapeMismatchError m n)"
  by (auto simp: NLLMulticlass_u_apply_def bind_err_eq_Inl not_assert Let_def)

lemma u_apply_not_assert:
  "cls self \<noteq> BCELoss \<Longrightarrow> u_apply self a b \<noteq> Inl (ShapeMismatchError m n)"
  by (cases "cls self")
    (simp_all add: u_apply_def PairwiseLoss_not_assert AbsoluteMarginLoss_not_assert
      NLLLoss_not_assert SelfAdversarialLoss_not_assert NLLMulticlass_not_assert)

lemma u_apply_dependencies [simp]:
  "u_apply (self\<lparr>u_dependencies := d\<rparr>) a b = u_apply self a b"
  by (simp add: u_apply_def PairwiseLoss_u_apply_def NLLLoss_u_apply_def
      AbsoluteMarginLoss_u_apply_def SelfAdversarialLoss_u_apply_def NLLMulticlass_u_apply_def
      BCELoss_u_apply_def BCELoss_smooth_def split: loss_class.splits cong: if_cong)

lemma Loss_u_inputs_check_result:
  "cls self \<noteq> BCELoss \<Longrightarrow> u_loss_parameters self ''eta'' = Some v \<Longrightarrow>
   u_inputs_check self a b =
     (None, self\<lparr>u_dependencies :=
        (if (cls self = PairwiseLoss \<or> cls self = NLLLoss \<or> cls self = AbsoluteMarginLoss)
            \<and> py_ne_one v
         then [AssertEqual (length a) (length b)] else [])\<rparr>)"
  by (cases "cls self")
     (simp_all add: u_inputs_check_def Loss_u_inputs_check_def getitem_def registry_lookup Let_def)

lemma Loss_u_inputs_check_no_flag:
  "cls self = SelfAdversarialLoss \<or> cls self = NLLMulticlass \<Longrightarrow>
   u_inputs_check self a b = (None, self\<lparr>u_dependencies := []\<rparr>)"
  by (auto simp add: u_inputs_check_def Loss_u_inputs_check_def getitem_def registry_lookup Let_def)


lemma new_loss_fields:
  assumes "new_loss c eta loss_params = Inr self0"
  shows "cls self0 = c" and "u_loss_parameters self0 ''eta'' = Some (PyInt eta)"
  using assms by (cases c; auto simp: new_loss_def Loss_init_def)+

lemma py_ne_one_PyInt [simp]: "py_ne_one (PyInt eta) = (eta \<noteq> 1)"
  by (simp add: py_ne_one_def)

lemma margin_broadcast_fails:
  assumes "length a \<noteq> length b" "length a \<noteq> 1" "length b \<noteq> 1"
  shows "\<exists>e. PairwiseLoss_u_apply self a b = Inl e"
    and "\<exists>e. AbsoluteMarginLoss_u_apply self a b = Inl e"
  using assms
  by (auto simp: PairwiseLoss_u_apply_def AbsoluteMarginLoss_u_apply_def bind_err_def
      tf_broadcast_op_def split: sum.splits)

lemma BCELoss_u_inputs_check_result:
  "cls self = BCELoss \<Longrightarrow> u_loss_parameters self ''label_smoothing'' = Some ls \<Longrightarrow>
   u_inputs_check self a b =
     (if ls \<noteq> PyNone \<and> u_loss_parameters self ''num_entities'' = None
      then Some MissingDependencyConfigurationError else None,
      self\<lparr>u_dependencies := [AssertEqual (length b) (length a)]\<rparr>)"
  by (auto simp add: u_inputs_check_def BCELoss_u_inputs_check_def getitem_def Let_def dom_def)

lemma BCELoss_dependencies_after:
  "cls self = BCELoss \<Longrightarrow>
   u_dependencies (snd (Loss_apply self a b)) = [AssertEqual (length b) (length a)]"
  by (simp add: Loss_apply_def u_inputs_check_def BCELoss_u_inputs_check_def getitem_def
      Let_def split: option.splits prod.splits sum.splits)

lemma BCELoss_smooth_numeric:
  assumes "py_num ls = Some s" "u_loss_parameters self ''num_entities'' = Some v"
    "py_num v = Some k" "k \<noteq> 0"
  shows "BCELoss_smooth self ls y = Inr (spec_smooth s k y)"
  using assms
  by (simp add: BCELoss_smooth_def py_sub_def py_truediv_def getitem_def spec_smooth_def)

lemma BCELoss_u_apply_total:
  assumes "u_loss_parameters self ''label_smoothing'' = Some PyNone"
    and "u_loss_parameters self ''label_weighting'' = Some lw"
    and "length y = length p"
  shows "\<exists>r. BCELoss_u_apply self y p = Inr r"
  using assms
  by (simp add: BCELoss_u_apply_def getitem_def tf_broadcast_op_def
      sigmoid_cross_entropy_with_logits_def Let_def)

lemma BCELoss_u_apply_smoothed:
  assumes "u_loss_parameters self ''label_smoothing'' = Some ls" "py_num ls = Some s"
    and "u_loss_parameters self ''num_entities'' = Some v" "py_num v = Some k" "k \<noteq> 0"
  shows "BCELoss_u_apply self y p =
     BCELoss_u_apply (self\<lparr>u_loss_parameters := (u_loss_parameters self)(''label_smoothing'' \<mapsto> PyNone)\<rparr>)
       (spec_smooth s k y) p"
proof -
  have "ls \<noteq> PyNone" using assms(2) by auto
  then show ?thesis
    using assms
    by (simp add: BCELoss_u_apply_def getitem_def BCELoss_smooth_numeric)
qed

lemma sum_list_map_upt: "sum_list (map f [0..<n]) = (\<Sum>i<n. f i)"
  for f :: "nat \<Rightarrow> real"
  by (simp add: interv_sum_list_conv_sum_set_nat atLeast0LessThan)

lemma sum_grid: "(\<Sum>k<a * n. f k) = (\<Sum>i<a. \<Sum>j<n. f (i * n + j))"
  for f :: "nat \<Rightarrow> real"
proof -
  have "(\<Sum>k<a * n. f k) = (\<Sum>i<a. sum f {i * n..<i * n + n})"
    by (rule sum.nat_group [symmetric])
  also have "\<dots> = (\<Sum>i<a. \<Sum>j<n. f (i * n + j))"
  proof (rule sum.cong [OF refl])
    fix i
    have "sum f {0 + i * n..<n + i * n} = (\<Sum>j = 0..<n. f (j + i * n))"
      by (rule sum.shift_bounds_nat_ivl)
    then show "sum f {i * n..<i * n + n} = (\<Sum>j<n. f (i * n + j))"
      by (simp add: atLeast0LessThan add.commute)
  qed
  finally show ?thesis .
qed

lemma grid_index_less: "i < a \<Longrightarrow> j < n \<Longrightarrow> i * n + j < a * (n::nat)"
proof -
  assume "i < a" "j < n"
  then have "i * n + j < i * n + n" by simp
  also have "\<dots> = Suc i * n" by simp
  also have "\<dots> \<le> a * n" using \<open>i < a\<close> by (intro mult_le_mono1) simp
  finally show ?thesis .
qed

lemma grid_index_mod: "j < n \<Longrightarrow> (i * n + j) mod n = (j::nat)"
  by simp

lemma tf_reshape_ok:
  "0 \<le> eta \<Longrightarrow> length t = nat eta * n \<Longrightarrow>
   tf_reshape t (PyInt eta) n = Inr \<lparr>dim0 = nat eta, dim1 = n, buf = t\<rparr>"
  by (simp add: tf_reshape_def)

lemma tf_reduce_sum_axis0_eq:
  assumes "length t = a * n"
  shows "tf_reduce_sum_axis0 \<lparr>dim0 = a, dim1 = n, buf = map f t\<rparr>
     = map (\<lambda>j. \<Sum>i<a. f (t ! (i * n + j))) [0..<n]"
proof -
  have "(\<Sum>i<a. map f t ! (i * n + j)) = (\<Sum>i<a. f (t ! (i * n + j)))" if "j < n" for j
    using that assms by (intro sum.cong) (simp_all add: grid_index_less)
  then show ?thesis
    by (simp add: tf_reduce_sum_axis0_def sum_list_map_upt)
qed

lemma log_sigmoid_eq: "tf_log_sigmoid x = spec_log_sigmoid x"
proof -
  have "0 < 1 + exp (- x)" by (simp add: add_pos_pos)
  then show ?thesis
    by (simp add: tf_log_sigmoid_def spec_log_sigmoid_def ln_div)
qed

lemma softmax_buf:
  assumes "length t = a * n"
  shows "buf (tf_softmax_axis0 \<lparr>dim0 = a, dim1 = n, buf = map f t\<rparr>)
     = map (\<lambda>k. exp (f (t ! k)) / (\<Sum>i<a. exp (f (t ! (i * n + k mod n)))))
         [0..<a * n]"
proof -
  have col: "tf_reduce_sum_axis0 \<lparr>dim0 = a, dim1 = n, buf = map (exp \<circ> f) t\<rparr>
      = map (\<lambda>j. \<Sum>i<a. exp (f (t ! (i * n + j)))) [0..<n]"
    using tf_reduce_sum_axis0_eq [of t a n "exp \<circ> f", OF assms] by simp
  have npos: "0 < n" if "k < a * n" for k
    using that by (cases n) simp_all
  show ?thesis
    using assms
    by (auto simp add: tf_softmax_axis0_def tf2_map_def Let_def col npos
        intro!: nth_equalityI)
qed

lemma softmax_columns:
  assumes "length t = a * n" "0 < a"
  shows "tf_reduce_sum_axis0 (tf_softmax_axis0 \<lparr>dim0 = a, dim1 = n, buf = map f t\<rparr>)
     = replicate n 1"
proof (rule nth_equalityI)
  show "length (tf_reduce_sum_axis0 (tf_softmax_axis0 \<lparr>dim0 = a, dim1 = n, buf = map f t\<rparr>))
      = length (replicate n (1::real))"
    by (simp add: tf_reduce_sum_axis0_def tf_softmax_axis0_def tf2_map_def Let_def)
next
  fix j
  assume "j < length (tf_reduce_sum_axis0 (tf_softmax_axis0 \<lparr>dim0 = a, dim1 = n, buf = map f t\<rparr>))"
  then have j: "j < n"
    by (simp add: tf_reduce_sum_axis0_def tf_softmax_axis0_def tf2_map_def Let_def)
  let ?S = "\<Sum>i<a. exp (f (t ! (i * n + j)))"
  have pos: "0 < ?S"
    using assms(2) by (intro sum_pos) auto
  have dims: "dim0 (tf_softmax_axis0 \<lparr>dim0 = a, dim1 = n, buf = map f t\<rparr>) = a"
    "dim1 (tf_softmax_axis0 \<lparr>dim0 = a, dim1 = n, buf = map f t\<rparr>) = n"
    by (simp_all add: tf_softmax_axis0_def tf2_map_def Let_def)
  have "tf_reduce_sum_axis0 (tf_softmax_axis0 \<lparr>dim0 = a, dim1 = n, buf = map f t\<rparr>) ! j
      = (\<Sum>i<a. buf (tf_softmax_axis0 \<lparr>dim0 = a, dim1 = n, buf = map f t\<rparr>) ! (i * n + j))"
    using j by (simp add: tf_reduce_sum_axis0_def dims sum_list_map_upt)
  also have "\<dots> = (\<Sum>i<a. exp (f (t ! (i * n + j))) / ?S)"
    using j by (intro sum.cong) (simp_all add: softmax_buf [OF assms(1)] grid_index_less)
  also have "\<dots> = ?S / ?S"
    by (simp only: sum_divide_distrib)
  also have "\<dots> = 1"
    using pos by simp
  finally show "tf_reduce_sum_axis0 (tf_softmax_axis0 \<lparr>dim0 = a, dim1 = n, buf = map f t\<rparr>) ! j
      = replicate n 1 ! j"
    using j by simp
qed

subsection \<open>Construction and class parameters\<close>

text \<open>
  C10. For each of the six registered classes and every eta, construction with an empty
  hyperparameter mapping returns an instance whose parameters are eta and the defaults:
  margin 1 for pairwise and absolute\_margin; margin 3 and alpha 0.5 for
  self\_adversarial; label\_smoothing None and label\_weighting False for bce; nothing
  more for nll and multiclass\_nll. Construction returns an instance for every class and
  every argument, so the error for a missing hyperparameter is never raised.
\<close>

theorem new_loss_empty_hyperparams:
  "new_loss PairwiseLoss eta (Some Map.empty) =
     Inr \<lparr>cls = PairwiseLoss,
          u_loss_parameters = [''eta'' \<mapsto> PyInt eta, ''margin'' \<mapsto> PyInt 1],
          u_dependencies = []\<rparr>
   \<and> new_loss NLLLoss eta (Some Map.empty) =
     Inr \<lparr>cls = NLLLoss, u_loss_parameters = [''eta'' \<mapsto> PyInt eta], u_dependencies = []\<rparr>
   \<and> new_loss AbsoluteMarginLoss eta (Some Map.empty) =
     Inr \<lparr>cls = AbsoluteMarginLoss,
          u_loss_parameters = [''eta'' \<mapsto> PyInt eta, ''margin'' \<mapsto> PyInt 1],
          u_dependencies = []\<rparr>
   \<and> new_loss SelfAdversarialLoss eta (Some Map.empty) =
     Inr \<lparr>cls = SelfAdversarialLoss,
          u_loss_parameters =
            [''eta'' \<mapsto> PyInt eta, ''margin'' \<mapsto> PyInt 3, ''alpha'' \<mapsto> PyFloat 0.5],
          u_dependencies = []\<rparr>
   \<and> new_loss NLLMulticlass eta (Some Map.empty) =
     Inr \<lparr>cls = NLLMulticlass, u_loss_parameters = [''eta'' \<mapsto> PyInt eta], u_dependencies = []\<rparr>
   \<and> new_loss BCELoss eta (Some Map.empty) =
     Inr \<lparr>cls = BCELoss,
          u_loss_parameters =
            [''eta'' \<mapsto> PyInt eta, ''label_smoothing'' \<mapsto> PyNone,
             ''label_weighting'' \<mapsto> PyBool False],
          u_dependencies = []\<rparr>
   \<and> (\<forall>c loss_params. \<exists>self. new_loss c eta loss_params = Inr self)"
proof -
  have total: "\<exists>self. new_loss c eta loss_params = Inr self" for c loss_params
    by (cases c) (simp_all add: new_loss_def Loss_init_def)
  show ?thesis
    using total
    by (simp add: new_loss_def Loss_init_def dict_get_def DEFAULT_MARGIN_def
        DEFAULT_MARGIN_ADVERSARIAL_def DEFAULT_ALPHA_ADVERSARIAL_def
        DEFAULT_LABEL_SMOOTHING_def DEFAULT_LABEL_WEIGHTING_def)
qed

text \<open>
  C2. What \<open>get_state\<close> returns: for the one name among the class parameters,
  \<open>require_same_size_pos_neg\<close>, the stored flag of the instance's class; for every
  other name Python's None. No name makes it raise.
\<close>

theorem get_state_result:
  "get_state self param_name =
     Inr (if param_name = ''require_same_size_pos_neg''
          then Some (cls self = PairwiseLoss \<or> cls self = NLLLoss \<or> cls self = AbsoluteMarginLoss)
          else None)"
  by (simp add: get_state_def getitem_def registry_lookup)

subsection \<open>The margin losses\<close>

text \<open>
  C7. For the pairwise loss with a numeric margin and score tensors of equal length, the
  reduction returns the sum over the positions of \<open>max(0, margin - pos + neg)\<close>; a loss
  constructed with no margin has margin 1, and on \<open>[1.0]\<close> and \<open>[0.0]\<close> it returns 0.
\<close>

theorem PairwiseLoss_u_apply_formula:
  assumes "u_loss_parameters self ''margin'' = Some mv"
    and "py_num mv = Some margin"
    and "length scores_pos = length scores_neg"
  shows "PairwiseLoss_u_apply self scores_pos scores_neg =
           Inr (spec_pairwise margin scores_pos scores_neg)
         \<and> apply_new PairwiseLoss eta (Some Map.empty) [1] [0] = Inr 0"
proof -
  have "PairwiseLoss_u_apply self scores_pos scores_neg =
      Inr (spec_pairwise margin scores_pos scores_neg)"
    using assms
    by (simp add: PairwiseLoss_u_apply_def bind_err_def getitem_def tf_constant_float32_def
        tf_broadcast_op_def tf_reduce_sum_def zip_map1 sum_list_map_zip_nth o_def
        case_prod_unfold spec_pairwise_def max.commute)
  moreover have "apply_new PairwiseLoss eta (Some Map.empty) [1] [0] = Inr 0"
    by (simp add: apply_new_def new_loss_def Loss_init_def bind_err_def dict_get_def
        DEFAULT_MARGIN_def Loss_apply_def u_inputs_check_def Loss_u_inputs_check_def
        getitem_def LOSS_REGISTRY_def register_loss_def default_class_params_def
        py_ne_one_def u_apply_def PairwiseLoss_u_apply_def tf_constant_float32_def
        tf_broadcast_op_def tf_reduce_sum_def Let_def)
  ultimately show ?thesis by simp
qed

theorem PairwiseLoss_u_apply_formula_witness:
  "PairwiseLoss_u_apply
     \<lparr>cls = PairwiseLoss, u_loss_parameters = [''eta'' \<mapsto> PyInt 2, ''margin'' \<mapsto> PyInt 1],
      u_dependencies = []\<rparr> [1, 3] [0, 4] = Inr 2"
  using PairwiseLoss_u_apply_formula [of
      "\<lparr>cls = PairwiseLoss, u_loss_parameters = [''eta'' \<mapsto> PyInt 2, ''margin'' \<mapsto> PyInt 1],
        u_dependencies = []\<rparr>" "PyInt 1" 1 "[1, 3]" "[0, 4]"]
  by (simp add: spec_pairwise_def lessThan_Suc numeral_2_eq_2)

text \<open>
  C8. For the absolute\_margin loss with a numeric margin and score tensors of equal
  length, the reduction returns the sum over the positions of
  \<open>max(0, margin + neg) - pos\<close>; a loss constructed with no margin has margin 1, and on
  \<open>[0.5]\<close> and \<open>[0.5]\<close> it returns 1.
\<close>

theorem AbsoluteMarginLoss_u_apply_formula:
  assumes "u_loss_parameters self ''margin'' = Some mv"
    and "py_num mv = Some margin"
    and "length scores_pos = length scores_neg"
  shows "AbsoluteMarginLoss_u_apply self scores_pos scores_neg =
           Inr (spec_absolute_margin margin scores_pos scores_neg)
         \<and> apply_new AbsoluteMarginLoss eta (Some Map.empty) [1 / 2] [1 / 2] = Inr 1"
proof -
  have "AbsoluteMarginLoss_u_apply self scores_pos scores_neg =
      Inr (spec_absolute_margin margin scores_pos scores_neg)"
    using assms
    by (simp add: AbsoluteMarginLoss_u_apply_def bind_err_def getitem_def
        tf_constant_float32_def tf_broadcast_op_def tf_reduce_sum_def zip_map1
        sum_list_map_zip_nth o_def case_prod_unfold spec_absolute_margin_def max.commute)
  moreover have "apply_new AbsoluteMarginLoss eta (Some Map.empty) [1 / 2] [1 / 2] = Inr 1"
    by (simp add: apply_new_def new_loss_def Loss_init_def bind_err_def dict_get_def
        DEFAULT_MARGIN_def Loss_apply_def u_inputs_check_def Loss_u_inputs_check_def
        getitem_def LOSS_REGISTRY_def register_loss_def default_class_params_def
        py_ne_one_def u_apply_def AbsoluteMarginLoss_u_apply_def tf_constant_float32_def
        tf_broadcast_op_def tf_reduce_sum_def Let_def)
  ultimately show ?thesis by simp
qed

theorem AbsoluteMarginLoss_u_apply_formula_witness:
  "AbsoluteMarginLoss_u_apply
     \<lparr>cls = AbsoluteMarginLoss,
      u_loss_parameters = [''eta'' \<mapsto> PyInt 2, ''margin'' \<mapsto> PyFloat 2],
      u_dependencies = []\<rparr> [1, 3] [- 5, 4] = Inr 2"
  using AbsoluteMarginLoss_u_apply_formula [of
      "\<lparr>cls = AbsoluteMarginLoss,
        u_loss_parameters = [''eta'' \<mapsto> PyInt 2, ''margin'' \<mapsto> PyFloat 2],
        u_dependencies = []\<rparr>" "PyFloat 2" 2 "[1, 3]" "[- 5, 4]"]
  by (simp add: spec_absolute_margin_def lessThan_Suc numeral_2_eq_2)

subsection \<open>The negative log-likelihood loss\<close>

text \<open>
  C6. For the nll loss and every pair of score tensors, the reduction returns the sum of
  \<open>log(1 + exp(x))\<close> where \<open>x\<close> ranges over the negated clamped positives followed by
  the clamped negatives; every element that \<open>clip_before_exp\<close> returns lies in the closed
  interval from -75 to 75.
\<close>

theorem NLLLoss_u_apply_formula:
  "NLLLoss_u_apply self scores_pos scores_neg = Inr (spec_nll scores_pos scores_neg)
   \<and> list_all (\<lambda>x. - 75 \<le> x \<and> x \<le> 75) (clip_before_exp scores_pos)
   \<and> list_all (\<lambda>x. - 75 \<le> x \<and> x \<le> 75) (clip_before_exp scores_neg)"
proof -
  have "NLLLoss_u_apply self scores_pos scores_neg = Inr (spec_nll scores_pos scores_neg)"
    by (simp add: NLLLoss_u_apply_def spec_nll_def clip_before_exp_spec tf_reduce_sum_def
        Let_def o_def)
  then show ?thesis
    by (simp add: clip_before_exp_bounds)
qed

theorem NLLLoss_u_apply_formula_witness:
  "NLLLoss_u_apply
     \<lparr>cls = NLLLoss, u_loss_parameters = [''eta'' \<mapsto> PyInt 2], u_dependencies = []\<rparr>
     [100] [- 100, 0] = Inr (ln (1 + exp (- 75)) + (ln (1 + exp (- 75)) + ln 2))"
  using NLLLoss_u_apply_formula [of
      "\<lparr>cls = NLLLoss, u_loss_parameters = [''eta'' \<mapsto> PyInt 2], u_dependencies = []\<rparr>"
      "[100]" "[- 100, 0]"]
  by (simp add: spec_nll_def spec_clip_def)

subsection \<open>The same-size assertion\<close>

text \<open>
  C3, as amended. For a pairwise, nll or absolute\_margin loss as its constructor returns
  it, whatever dependencies an earlier call has left: if eta is not 1 and the two lengths
  differ, \<open>apply\<close> fails with the assertion's error on the two lengths; if eta is 1 no
  assertion is made and \<open>apply\<close> never fails with the assertion's error: nll then returns
  a loss for any two lengths, while pairwise and absolute\_margin still fail, in the
  broadcast of their elementwise operation, when the lengths differ and neither is 1.
  The dependencies that a call leaves are those of that call alone, and its result does
  not depend on the dependencies left before.
\<close>

theorem same_size_assertion:
  assumes c: "c = PairwiseLoss \<or> c = NLLLoss \<or> c = AbsoluteMarginLoss"
    and new: "new_loss c eta loss_params = Inr self0"
  shows
    "(eta \<noteq> 1 \<and> length scores_pos \<noteq> length scores_neg \<longrightarrow>
        fst (Loss_apply (self0\<lparr>u_dependencies := deps\<rparr>) scores_pos scores_neg)
          = Inl (ShapeMismatchError (length scores_pos) (length scores_neg)))
   \<and> (eta = 1 \<longrightarrow>
        (\<forall>m n. fst (Loss_apply (self0\<lparr>u_dependencies := deps\<rparr>) scores_pos scores_neg)
           \<noteq> Inl (ShapeMismatchError m n)))
   \<and> (eta = 1 \<and> c = NLLLoss \<longrightarrow>
        (\<exists>r. fst (Loss_apply (self0\<lparr>u_dependencies := deps\<rparr>) scores_pos scores_neg) = Inr r))
   \<and> (eta = 1 \<and> c \<noteq> NLLLoss \<and> length scores_pos \<noteq> length scores_neg
        \<and> length scores_pos \<noteq> 1 \<and> length scores_neg \<noteq> 1 \<longrightarrow>
        (\<exists>e. fst (Loss_apply (self0\<lparr>u_dependencies := deps\<rparr>) scores_pos scores_neg) = Inl e))
   \<and> snd (Loss_apply (self0\<lparr>u_dependencies := deps\<rparr>) scores_pos scores_neg)
        = self0\<lparr>u_dependencies :=
            (if eta \<noteq> 1 then [AssertEqual (length scores_pos) (length scores_neg)] else [])\<rparr>
   \<and> fst (Loss_apply (self0\<lparr>u_dependencies := deps\<rparr>) scores_pos scores_neg)
        = fst (Loss_apply self0 scores_pos scores_neg)"
proof -
  let ?s = "self0\<lparr>u_dependencies := deps\<rparr>"
  have cls: "cls self0 = c" and eta: "u_loss_parameters self0 ''eta'' = Some (PyInt eta)"
    using new_loss_fields [OF new] by simp_all
  have nb: "cls ?s \<noteq> BCELoss" "cls self0 \<noteq> BCELoss"
    using c cls by auto
  have chk: "u_inputs_check ?s scores_pos scores_neg =
      (None, self0\<lparr>u_dependencies :=
         (if eta \<noteq> 1 then [AssertEqual (length scores_pos) (length scores_neg)] else [])\<rparr>)"
    using Loss_u_inputs_check_result [OF nb(1), of "PyInt eta" scores_pos scores_neg] c cls eta
    by auto
  have chk0: "u_inputs_check self0 scores_pos scores_neg =
      (None, self0\<lparr>u_dependencies :=
         (if eta \<noteq> 1 then [AssertEqual (length scores_pos) (length scores_neg)] else [])\<rparr>)"
    using Loss_u_inputs_check_result [OF nb(2) eta, of scores_pos scores_neg] c cls
    by auto
  have ne: "fst (Loss_apply ?s scores_pos scores_neg)
      = Inl (ShapeMismatchError (length scores_pos) (length scores_neg))"
    if "eta \<noteq> 1" "length scores_pos \<noteq> length scores_neg"
    using that by (simp add: Loss_apply_def chk)
  have one: "fst (Loss_apply ?s scores_pos scores_neg) = u_apply self0 scores_pos scores_neg"
    if "eta = 1"
    using that by (simp add: Loss_apply_def chk)
  have p2: "fst (Loss_apply ?s scores_pos scores_neg) \<noteq> Inl (ShapeMismatchError m n)"
    if "eta = 1" for m n
    using one [OF that] u_apply_not_assert [OF nb(2)] by simp
  have p3: "\<exists>r. fst (Loss_apply ?s scores_pos scores_neg) = Inr r"
    if "eta = 1" "c = NLLLoss"
    using one [OF that(1)] that(2) cls
    by (simp add: u_apply_def NLLLoss_u_apply_def Let_def)
  have p4: "\<exists>e. fst (Loss_apply ?s scores_pos scores_neg) = Inl e"
    if "eta = 1" "c \<noteq> NLLLoss" "length scores_pos \<noteq> length scores_neg"
      "length scores_pos \<noteq> 1" "length scores_neg \<noteq> 1"
    using one [OF that(1)] that c cls margin_broadcast_fails [of scores_pos scores_neg self0]
    by (auto simp: u_apply_def)
  have p5: "snd (Loss_apply ?s scores_pos scores_neg)
      = self0\<lparr>u_dependencies :=
          (if eta \<noteq> 1 then [AssertEqual (length scores_pos) (length scores_neg)] else [])\<rparr>"
    by (simp add: Loss_apply_def chk split: option.splits)
  have p6: "fst (Loss_apply ?s scores_pos scores_neg) = fst (Loss_apply self0 scores_pos scores_neg)"
    by (simp add: Loss_apply_def chk chk0 split: option.splits)
  show ?thesis
    using ne p2 p3 p4 p5 p6 by blast
qed

theorem same_size_assertion_witness:
  "fst (Loss_apply
     \<lparr>cls = PairwiseLoss, u_loss_parameters = [''eta'' \<mapsto> PyInt 2, ''margin'' \<mapsto> PyInt 1],
      u_dependencies = []\<rparr> [0] [0, 0]) = Inl (ShapeMismatchError 1 2)
   \<and> u_dependencies (snd (Loss_apply
     \<lparr>cls = NLLLoss, u_loss_parameters = [''eta'' \<mapsto> PyInt 1],
      u_dependencies = [AssertEqual 3 4]\<rparr> [0] [0, 0])) = []"
  using same_size_assertion [of PairwiseLoss 2 None
      "\<lparr>cls = PairwiseLoss, u_loss_parameters = [''eta'' \<mapsto> PyInt 2, ''margin'' \<mapsto> PyInt 1],
        u_dependencies = []\<rparr>" "[0]" "[0, 0]" "[]"]
    same_size_assertion [of NLLLoss 1 None
      "\<lparr>cls = NLLLoss, u_loss_parameters = [''eta'' \<mapsto> PyInt 1], u_dependencies = []\<rparr>"
      "[0]" "[0, 0]" "[AssertEqual 3 4]"]
  by (simp add: new_loss_def Loss_init_def dict_get_def DEFAULT_MARGIN_def)

text \<open>
  The claim as stated fails: with eta 1, the pairwise loss on tensors of lengths 2 and 3
  raises the runtime's error for shapes that do not broadcast.
\<close>

theorem eta_one_mismatch_counterexample:
  "apply_new PairwiseLoss 1 None [0, 0] [0, 0, 0] = Inl InvalidArgumentError"
  by (simp add: apply_new_def new_loss_def Loss_init_def dict_get_def DEFAULT_MARGIN_def
      Loss_apply_def u_inputs_check_def Loss_u_inputs_check_def getitem_def
      LOSS_REGISTRY_def register_loss_def default_class_params_def
      u_apply_def PairwiseLoss_u_apply_def tf_constant_float32_def
      tf_broadcast_op_def Let_def)

text \<open>
  C1, as amended. For a self\_adversarial or multiclass\_nll loss, whatever eta and the
  inputs, \<open>apply\<close> adds no assertion, returns what the reduction returns, and never fails
  with the assertion's error. For a bce loss \<open>apply\<close> always adds the assertion that the
  two inputs have one length, and without label smoothing it fails with the assertion's
  error whenever the lengths differ.
\<close>

theorem same_size_not_required:
  "(cls self = SelfAdversarialLoss \<or> cls self = NLLMulticlass \<longrightarrow>
      u_dependencies (snd (Loss_apply self a b)) = []
      \<and> fst (Loss_apply self a b) = u_apply self a b
      \<and> (\<forall>m n. fst (Loss_apply self a b) \<noteq> Inl (ShapeMismatchError m n)))
   \<and> (cls self = BCELoss \<longrightarrow>
        u_dependencies (snd (Loss_apply self a b)) = [AssertEqual (length b) (length a)])
   \<and> (cls self = BCELoss \<and> u_loss_parameters self ''label_smoothing'' = Some PyNone
        \<and> length a \<noteq> length b \<longrightarrow>
        fst (Loss_apply self a b) = Inl (ShapeMismatchError (length b) (length a)))"
proof -
  have p1: "u_dependencies (snd (Loss_apply self a b)) = []
      \<and> fst (Loss_apply self a b) = u_apply self a b
      \<and> (\<forall>m n. fst (Loss_apply self a b) \<noteq> Inl (ShapeMismatchError m n))"
    if h: "cls self = SelfAdversarialLoss \<or> cls self = NLLMulticlass"
  proof -
    have nb: "cls self \<noteq> BCELoss" using h by auto
    have "Loss_apply self a b = (u_apply self a b, self\<lparr>u_dependencies := []\<rparr>)"
      by (simp add: Loss_apply_def Loss_u_inputs_check_no_flag [OF h])
    then show ?thesis
      using u_apply_not_assert [OF nb] by simp
  qed
  have p3: "fst (Loss_apply self a b) = Inl (ShapeMismatchError (length b) (length a))"
    if "cls self = BCELoss" "u_loss_parameters self ''label_smoothing'' = Some PyNone"
      "length a \<noteq> length b"
    using that by (auto simp add: Loss_apply_def BCELoss_u_inputs_check_result)
  show ?thesis
    using p1 p3 BCELoss_dependencies_after by blast
qed

theorem same_size_not_required_witness:
  "fst (Loss_apply
      \<lparr>cls = NLLMulticlass, u_loss_parameters = [''eta'' \<mapsto> PyInt 1], u_dependencies = []\<rparr>
      [0] [0, 0]) = Inl InvalidArgumentError
   \<and> u_dependencies (snd (Loss_apply
      \<lparr>cls = NLLMulticlass, u_loss_parameters = [''eta'' \<mapsto> PyInt 1], u_dependencies = []\<rparr>
      [0] [0, 0])) = []
   \<and> fst (Loss_apply
      \<lparr>cls = BCELoss,
       u_loss_parameters = [''eta'' \<mapsto> PyInt 1, ''label_smoothing'' \<mapsto> PyNone,
         ''label_weighting'' \<mapsto> PyBool False],
       u_dependencies = []\<rparr> [1, 0] [0]) = Inl (ShapeMismatchError 1 2)"
  using same_size_not_required [of
      "\<lparr>cls = NLLMulticlass, u_loss_parameters = [''eta'' \<mapsto> PyInt 1], u_dependencies = []\<rparr>"
      "[0]" "[0, 0]"]
    same_size_not_required [of
      "\<lparr>cls = BCELoss,
        u_loss_parameters = [''eta'' \<mapsto> PyInt 1, ''label_smoothing'' \<mapsto> PyNone,
          ''label_weighting'' \<mapsto> PyBool False],
        u_dependencies = []\<rparr>" "[1, 0]" "[0]"]
  by (simp add: u_apply_def NLLMulticlass_u_apply_def getitem_def tf_reshape_def
      clip_before_exp_def Let_def)

text \<open>
  The claim as stated fails for bce: inputs of lengths 1 and 2 fail the assertion.
\<close>

theorem bce_same_size_counterexample:
  "apply_new BCELoss 1 (Some Map.empty) [1] [0, 0] = Inl (ShapeMismatchError 2 1)"
  by (simp add: apply_new_def new_loss_def Loss_init_def dict_get_def
      DEFAULT_LABEL_SMOOTHING_def DEFAULT_LABEL_WEIGHTING_def
      Loss_apply_def u_inputs_check_def BCELoss_u_inputs_check_def getitem_def Let_def)

subsection \<open>Label smoothing of the binary cross-entropy loss\<close>

text \<open>
  C9, as amended. For a bce loss with \<open>label_smoothing\<close> not None and no
  \<open>num_entities\<close>, every call of \<open>apply\<close> fails with the configuration error. After
  \<open>_set_hyperparams('num_entities', v)\<close> with a number \<open>v\<close> other than zero, and when
  \<open>label_smoothing\<close> is a number, a call on inputs of equal length succeeds, and its
  result is the loss without smoothing on the labels
  \<open>(1 - smoothing) * y_true + smoothing / num_entities\<close>.
\<close>

theorem BCELoss_label_smoothing:
  assumes "cls self = BCELoss"
    and "u_loss_parameters self ''label_smoothing'' = Some ls"
    and "ls \<noteq> PyNone"
    and "u_loss_parameters self ''label_weighting'' = Some lw"
    and "u_loss_parameters self ''num_entities'' = None"
  shows "fst (Loss_apply self y_true y_pred) = Inl MissingDependencyConfigurationError
   \<and> (py_num ls = Some s \<and> py_num v = Some k \<and> k \<noteq> 0 \<and> length y_true = length y_pred \<longrightarrow>
        (\<exists>r. fst (Loss_apply (u_set_hyperparams self ''num_entities'' v) y_true y_pred) = Inr r)
        \<and> fst (Loss_apply (u_set_hyperparams self ''num_entities'' v) y_true y_pred)
            = BCELoss_u_apply
                (self\<lparr>u_loss_parameters := (u_loss_parameters self)(''label_smoothing'' \<mapsto> PyNone)\<rparr>)
                (spec_smooth s k y_true) y_pred)"
proof -
  let ?t = "u_set_hyperparams self ''num_entities'' v"
  let ?u = "self\<lparr>u_loss_parameters := (u_loss_parameters self)(''label_smoothing'' \<mapsto> PyNone)\<rparr>"
  have first: "fst (Loss_apply self y_true y_pred) = Inl MissingDependencyConfigurationError"
    using assms by (simp add: Loss_apply_def BCELoss_u_inputs_check_result)
  have second: "(\<exists>r. fst (Loss_apply ?t y_true y_pred) = Inr r)
      \<and> fst (Loss_apply ?t y_true y_pred) = BCELoss_u_apply ?u (spec_smooth s k y_true) y_pred"
    if num: "py_num ls = Some s" "py_num v = Some k" "k \<noteq> 0"
      and len: "length y_true = length y_pred"
  proof -
    have t: "cls ?t = BCELoss" "u_loss_parameters ?t ''label_smoothing'' = Some ls"
      "u_loss_parameters ?t ''num_entities'' = Some v"
      "u_loss_parameters ?t ''label_weighting'' = Some lw"
      using assms by (simp_all add: u_set_hyperparams_def)
    have "fst (Loss_apply ?t y_true y_pred) = u_apply ?t y_true y_pred"
      using t len by (simp add: Loss_apply_def BCELoss_u_inputs_check_result)
    then have run: "fst (Loss_apply ?t y_true y_pred) = BCELoss_u_apply ?t y_true y_pred"
      using t(1) by (simp add: u_apply_def)
    have sm: "BCELoss_u_apply ?t y_true y_pred =
        BCELoss_u_apply
          (?t\<lparr>u_loss_parameters := (u_loss_parameters ?t)(''label_smoothing'' \<mapsto> PyNone)\<rparr>)
          (spec_smooth s k y_true) y_pred"
      by (rule BCELoss_u_apply_smoothed [OF t(2) num(1) t(3) num(2) num(3)])
    have drop: "BCELoss_u_apply
          (?t\<lparr>u_loss_parameters := (u_loss_parameters ?t)(''label_smoothing'' \<mapsto> PyNone)\<rparr>)
          (spec_smooth s k y_true) y_pred
        = BCELoss_u_apply ?u (spec_smooth s k y_true) y_pred"
      using assms by (simp add: BCELoss_u_apply_def getitem_def u_set_hyperparams_def)
    have tot: "\<exists>r. BCELoss_u_apply ?u (spec_smooth s k y_true) y_pred = Inr r"
      using assms len by (intro BCELoss_u_apply_total [of _ lw]) (simp_all add: spec_smooth_def)
    show ?thesis
      using run sm drop tot by simp
  qed
  show ?thesis
    using first second by blast
qed

theorem BCELoss_label_smoothing_witness:
  "fst (Loss_apply
     \<lparr>cls = BCELoss,
      u_loss_parameters = [''eta'' \<mapsto> PyInt 1, ''label_smoothing'' \<mapsto> PyFloat (1 / 10),
        ''label_weighting'' \<mapsto> PyBool False],
      u_dependencies = []\<rparr> [1, 0] [0, 0]) = Inl MissingDependencyConfigurationError
   \<and> fst (Loss_apply
     (u_set_hyperparams
       \<lparr>cls = BCELoss,
        u_loss_parameters = [''eta'' \<mapsto> PyInt 1, ''label_smoothing'' \<mapsto> PyFloat (1 / 10),
          ''label_weighting'' \<mapsto> PyBool False],
        u_dependencies = []\<rparr> ''num_entities'' (PyInt 10)) [1, 0] [0, 0])
     = BCELoss_u_apply
        \<lparr>cls = BCELoss,
         u_loss_parameters = [''eta'' \<mapsto> PyInt 1, ''label_weighting'' \<mapsto> PyBool False,
           ''label_smoothing'' \<mapsto> PyNone],
         u_dependencies = []\<rparr> (spec_smooth (1 / 10) 10 [1, 0]) [0, 0]"
  using BCELoss_label_smoothing [of
      "\<lparr>cls = BCELoss,
        u_loss_parameters = [''eta'' \<mapsto> PyInt 1, ''label_smoothing'' \<mapsto> PyFloat (1 / 10),
          ''label_weighting'' \<mapsto> PyBool False],
        u_dependencies = []\<rparr>" "PyFloat (1 / 10)" "PyBool False" "[1, 0]" "[0, 0]"
      "1 / 10" "PyInt 10" 10]
  by simp

text \<open>
  The claim as stated fails: after \<open>num_entities\<close> is set, the call that failed with the
  configuration error fails again, now on the assertion, when its inputs differ in length.
\<close>

theorem set_num_entities_counterexample:
  "new_loss BCELoss 1 (Some [''label_smoothing'' \<mapsto> PyFloat (1 / 10)]) =
     Inr \<lparr>cls = BCELoss,
          u_loss_parameters = [''eta'' \<mapsto> PyInt 1, ''label_smoothing'' \<mapsto> PyFloat (1 / 10),
            ''label_weighting'' \<mapsto> PyBool False],
          u_dependencies = []\<rparr>
   \<and> fst (Loss_apply
     \<lparr>cls = BCELoss,
      u_loss_parameters = [''eta'' \<mapsto> PyInt 1, ''label_smoothing'' \<mapsto> PyFloat (1 / 10),
        ''label_weighting'' \<mapsto> PyBool False],
      u_dependencies = []\<rparr> [1, 0] [0]) = Inl MissingDependencyConfigurationError
   \<and> fst (Loss_apply
     (u_set_hyperparams
       \<lparr>cls = BCELoss,
        u_loss_parameters = [''eta'' \<mapsto> PyInt 1, ''label_smoothing'' \<mapsto> PyFloat (1 / 10),
          ''label_weighting'' \<mapsto> PyBool False],
        u_dependencies = []\<rparr> ''num_entities'' (PyInt 10)) [1, 0] [0])
     = Inl (ShapeMismatchError 1 2)"
  by (simp add: new_loss_def Loss_init_def dict_get_def DEFAULT_LABEL_WEIGHTING_def
      Loss_apply_def u_inputs_check_def BCELoss_u_inputs_check_def getitem_def Let_def
      u_set_hyperparams_def)

subsection \<open>The losses on a grid of negatives\<close>

text \<open>
  C5. For the multiclass\_nll loss with eta negatives per positive, \<open>scores_pos\<close> of
  length n and \<open>scores_neg\<close> of length eta times n, the reduction clamps both tensors
  into the interval from -75 to 75, reads the clamped negatives as eta rows of n columns,
  and returns minus the sum over the columns of the logarithm of
  \<open>exp(pos) / (sum over the rows of exp(neg) + exp(pos))\<close>.
\<close>

theorem NLLMulticlass_u_apply_formula:
  assumes "u_loss_parameters self ''eta'' = Some (PyInt eta)"
    and "0 \<le> eta"
    and "length scores_neg = nat eta * length scores_pos"
  shows "NLLMulticlass_u_apply self scores_pos scores_neg =
           Inr (spec_multiclass_nll (nat eta) scores_pos scores_neg)"
proof -
  let ?n = "length scores_pos"
  let ?a = "nat eta"
  let ?g = "\<lparr>dim0 = ?a, dim1 = ?n, buf = map exp (clip_before_exp scores_neg)\<rparr>"
  have len: "length (clip_before_exp scores_neg) = ?a * ?n" "length (clip_before_exp scores_pos) = ?n"
    using assms(3) by (simp_all add: clip_before_exp_def)
  have reshape: "tf_reshape (clip_before_exp scores_neg) (PyInt eta) (length (clip_before_exp scores_pos))
      = Inr \<lparr>dim0 = ?a, dim1 = ?n, buf = clip_before_exp scores_neg\<rparr>"
    using assms(2) len by (simp add: tf_reshape_ok)
  have col: "tf_reduce_sum_axis0 ?g
      = map (\<lambda>j. \<Sum>i<?a. exp (clip_before_exp scores_neg ! (i * ?n + j))) [0..<?n]"
    using len(1) by (rule tf_reduce_sum_axis0_eq)
  have den: "tf_broadcast_op (+) (tf_reduce_sum_axis0 ?g) (map exp (clip_before_exp scores_pos))
      = Inr (map (\<lambda>j. (\<Sum>i<?a. exp (clip_before_exp scores_neg ! (i * ?n + j)))
                      + exp (clip_before_exp scores_pos ! j)) [0..<?n])"
    unfolding col using len(2)
    by (auto simp add: tf_broadcast_op_def intro!: nth_equalityI)
  have score: "tf_broadcast_op (/) (map exp (clip_before_exp scores_pos))
        (map (\<lambda>j. (\<Sum>i<?a. exp (clip_before_exp scores_neg ! (i * ?n + j)))
                      + exp (clip_before_exp scores_pos ! j)) [0..<?n])
      = Inr (map (spec_softmax_score ?a scores_pos scores_neg) [0..<?n])"
  proof -
    have "exp (clip_before_exp scores_pos ! j)
          / ((\<Sum>i<?a. exp (clip_before_exp scores_neg ! (i * ?n + j)))
              + exp (clip_before_exp scores_pos ! j))
        = spec_softmax_score ?a scores_pos scores_neg j" if "j < ?n" for j
    proof -
      have "clip_before_exp scores_neg ! (i * ?n + j) = spec_clip (spec_grid scores_neg ?n i j)"
        if "i < ?a" for i
        using that \<open>j < ?n\<close> assms(3)
        by (simp add: clip_before_exp_spec spec_grid_def grid_index_less)
      then have "(\<Sum>i<?a. exp (clip_before_exp scores_neg ! (i * ?n + j)))
          = (\<Sum>i<?a. exp (spec_clip (spec_grid scores_neg ?n i j)))"
        by (intro sum.cong) simp_all
      then show ?thesis
        using that by (simp add: spec_softmax_score_def clip_before_exp_spec)
    qed
    then show ?thesis
      using len(2) by (auto simp add: tf_broadcast_op_def intro!: nth_equalityI)
  qed
  show ?thesis
    using assms(1)
    by (simp add: NLLMulticlass_u_apply_def Let_def getitem_def reshape tf2_map_def den score
        tf_reduce_sum_def spec_multiclass_nll_def sum_list_map_upt o_def)
qed


theorem NLLMulticlass_u_apply_formula_witness:
  "NLLMulticlass_u_apply
     \<lparr>cls = NLLMulticlass, u_loss_parameters = [''eta'' \<mapsto> PyInt 2], u_dependencies = []\<rparr>
     [0] [0, 0] = Inr (ln 3)"
  using NLLMulticlass_u_apply_formula [of
      "\<lparr>cls = NLLMulticlass, u_loss_parameters = [''eta'' \<mapsto> PyInt 2], u_dependencies = []\<rparr>"
      2 "[0, 0]" "[0]"]
  by (simp add: spec_multiclass_nll_def spec_softmax_score_def spec_grid_def spec_clip_def
      lessThan_Suc numeral_2_eq_2 ln_div)

text \<open>
  C4. For the self\_adversarial loss with numeric margin and alpha and a positive eta,
  \<open>scores_pos\<close> of length n and \<open>scores_neg\<close> of length eta times n, the reduction
  returns minus the sum of \<open>log_sigmoid(margin + pos)\<close>, minus the sum over the grid of
  eta rows and n columns of \<open>p_neg * log_sigmoid(- neg - margin)\<close>, where \<open>p_neg\<close> is the
  softmax of \<open>alpha * neg\<close> over each column; the reshape succeeds, and every column of
  the softmax weights that the code computes sums to 1.
\<close>

theorem SelfAdversarialLoss_u_apply_formula:
  assumes "u_loss_parameters self ''margin'' = Some mv" and "py_num mv = Some margin"
    and "u_loss_parameters self ''alpha'' = Some av" and "py_num av = Some alpha"
    and "u_loss_parameters self ''eta'' = Some (PyInt eta)" and "0 < eta"
    and "length scores_neg = nat eta * length scores_pos"
  shows "SelfAdversarialLoss_u_apply self scores_pos scores_neg =
           Inr (spec_self_adversarial margin alpha (nat eta) scores_pos scores_neg)
         \<and> tf_reshape scores_neg (PyInt eta) (length scores_pos) =
             Inr \<lparr>dim0 = nat eta, dim1 = length scores_pos, buf = scores_neg\<rparr>
         \<and> tf_reduce_sum_axis0 (tf_softmax_axis0 (tf2_map (\<lambda>x. alpha * x)
              \<lparr>dim0 = nat eta, dim1 = length scores_pos, buf = scores_neg\<rparr>))
             = replicate (length scores_pos) 1"
proof -
  let ?n = "length scores_pos"
  let ?a = "nat eta"
  let ?G = "\<lparr>dim0 = ?a, dim1 = ?n, buf = scores_neg\<rparr>"
  let ?P = "tf_softmax_axis0 (tf2_map (\<lambda>x. alpha * x) ?G)"
  have len: "length scores_neg = ?a * ?n" by (rule assms(7))
  have reshape: "tf_reshape scores_neg (PyInt eta) ?n = Inr ?G"
    using assms(6) len by (simp add: tf_reshape_ok)
  have map_G: "tf2_map h ?G = \<lparr>dim0 = ?a, dim1 = ?n, buf = map h scores_neg\<rparr>" for h
    by (simp add: tf2_map_def)
  have bufP: "buf ?P = map (\<lambda>k. exp (alpha * scores_neg ! k)
        / (\<Sum>i<?a. exp (alpha * scores_neg ! (i * ?n + k mod ?n)))) [0..<?a * ?n]"
    unfolding map_G by (rule softmax_buf [OF len])
  have dimsP: "dim0 ?P = ?a" "dim1 ?P = ?n"
    unfolding map_G by (simp_all add: tf_softmax_axis0_def tf2_map_def Let_def)
  have mult: "tf2_multiply ?P (tf2_map (\<lambda>x. tf_log_sigmoid (- x - margin)) ?G)
      = Inr (?P\<lparr>buf := map2 (*) (buf ?P) (map (\<lambda>x. tf_log_sigmoid (- x - margin)) scores_neg)\<rparr>)"
    by (simp add: tf2_multiply_def dimsP [unfolded map_G] map_G)
  have second: "sum_list (map2 (*) (buf ?P) (map (\<lambda>x. tf_log_sigmoid (- x - margin)) scores_neg))
      = (\<Sum>i<?a. \<Sum>j<?n. spec_p_neg alpha ?a scores_neg ?n i j
            * spec_log_sigmoid (- spec_grid scores_neg ?n i j - margin))"
  proof -
    let ?w = "\<lambda>k. exp (alpha * scores_neg ! k)
        / (\<Sum>i<?a. exp (alpha * scores_neg ! (i * ?n + k mod ?n)))
        * spec_log_sigmoid (- scores_neg ! k - margin)"
    have lenP: "length (buf ?P) = length (map (\<lambda>x. tf_log_sigmoid (- x - margin)) scores_neg)"
      by (simp add: bufP len)
    have "sum_list (map2 (*) (buf ?P) (map (\<lambda>x. tf_log_sigmoid (- x - margin)) scores_neg))
        = (\<Sum>k<length (buf ?P). buf ?P ! k * map (\<lambda>x. tf_log_sigmoid (- x - margin)) scores_neg ! k)"
      using sum_list_map_zip_nth [OF lenP, of "\<lambda>(x, y). x * y"] by simp
    also have "\<dots> = (\<Sum>k<?a * ?n. ?w k)"
      by (simp add: bufP len log_sigmoid_eq)
    also have "\<dots> = (\<Sum>i<?a. \<Sum>j<?n. ?w (i * ?n + j))"
      by (rule sum_grid)
    also have "\<dots> = (\<Sum>i<?a. \<Sum>j<?n. spec_p_neg alpha ?a scores_neg ?n i j
            * spec_log_sigmoid (- spec_grid scores_neg ?n i j - margin))"
      by (intro sum.cong refl) (simp add: spec_p_neg_def spec_grid_def)
    finally show ?thesis .
  qed
  have first: "sum_list (map (\<lambda>p. - tf_log_sigmoid (margin + p)) scores_pos)
      = - (\<Sum>j<?n. spec_log_sigmoid (margin + scores_pos ! j))"
  proof -
    have "sum_list (map (\<lambda>p. - tf_log_sigmoid (margin + p)) scores_pos)
        = (\<Sum>j = 0..<?n. map (\<lambda>p. - tf_log_sigmoid (margin + p)) scores_pos ! j)"
      using sum_list_sum_nth [of "map (\<lambda>p. - tf_log_sigmoid (margin + p)) scores_pos"]
      by simp
    also have "\<dots> = (\<Sum>j<?n. - spec_log_sigmoid (margin + scores_pos ! j))"
      by (simp add: atLeast0LessThan log_sigmoid_eq)
    finally show ?thesis by (simp add: sum_negf)
  qed
  have res: "SelfAdversarialLoss_u_apply self scores_pos scores_neg =
      Inr (spec_self_adversarial margin alpha ?a scores_pos scores_neg)"
    using assms(1-5)
    by (simp add: SelfAdversarialLoss_u_apply_def getitem_def tf_constant_float32_def reshape
        Let_def mult tf_reduce_sum_def first second spec_self_adversarial_def)
  have cols: "tf_reduce_sum_axis0 ?P = replicate ?n 1"
    unfolding map_G using assms(6) by (intro softmax_columns [OF len]) simp
  show ?thesis
    using res reshape cols by simp
qed

theorem SelfAdversarialLoss_u_apply_formula_witness:
  "SelfAdversarialLoss_u_apply
     \<lparr>cls = SelfAdversarialLoss,
      u_loss_parameters = [''eta'' \<mapsto> PyInt 2, ''margin'' \<mapsto> PyInt 3, ''alpha'' \<mapsto> PyFloat (1 / 2)],
      u_dependencies = []\<rparr> [0] [0, 0] = Inr (spec_self_adversarial 3 (1 / 2) 2 [0] [0, 0])
   \<and> tf_reduce_sum_axis0 (tf_softmax_axis0 (tf2_map (\<lambda>x. 1 / 2 * x)
        \<lparr>dim0 = 2, dim1 = 1, buf = [0, 0]\<rparr>)) = [1]"
  using SelfAdversarialLoss_u_apply_formula [where
      self = "\<lparr>cls = SelfAdversarialLoss,
        u_loss_parameters = [''eta'' \<mapsto> PyInt 2, ''margin'' \<mapsto> PyInt 3, ''alpha'' \<mapsto> PyFloat (1 / 2)],
        u_dependencies = []\<rparr>"
      and mv = "PyInt 3" and margin = 3 and av = "PyFloat (1 / 2)" and alpha = "1 / 2"
      and eta = 2 and scores_neg = "[0, 0]" and scores_pos = "[0]"]
  by simp

end
